theory Spec2Isabelle
  imports Main "HOL-Library.List_Lexorder" "HOL-Library.Multiset" "HOL-Library.AList"
begin

section \<open>The cookie browser dialog: grouping and sorting of cookies\<close>

text \<open>
  This theory embeds the functions \<open>compareCaseInsensitive\<close>, \<open>compareDomain\<close>,
  \<open>compareCookieName\<close> and \<open>getCookieList\<close> of
  \<^verbatim>\<open>src/components/dialogs/cookieBrowserDialog.tsx\<close>.

  \<open>getCookieList\<close> awaits \<open>browser.cookies.getAll({})\<close> once and then computes
  synchronously on the array it received; the model takes that array as its argument.
\<close>

subsection \<open>Strings\<close>

text \<open>
  A JavaScript string is the sequence of its UTF-16 code units, and \<open><\<close> compares
  two strings lexicographically by code unit, a proper prefix being smaller. \<open>str\<close>
  gives the string written as an ASCII literal: its code units are the character codes.
\<close>

type_synonym jsString = "nat list"

definition str :: "string \<Rightarrow> jsString" where
  "str s = map of_char s"

text \<open>
  \<open>toLowerCase\<close> on a string of ASCII characters: \<open>A\<close>..\<open>Z\<close> (65..90) become
  \<open>a\<close>..\<open>z\<close>, every other character stays. It stands for the runtime's function
  where a result below runs the code on given ASCII strings.
\<close>

definition toLowerCaseASCII :: "jsString \<Rightarrow> jsString" where
  "toLowerCaseASCII s = map (\<lambda>c. if 65 \<le> c \<and> c \<le> 90 then c + 32 else c) s"

definition startsWith :: "jsString \<Rightarrow> jsString \<Rightarrow> bool" where
  "startsWith s p = (take (length p) s = p)"

definition substr :: "jsString \<Rightarrow> nat \<Rightarrow> jsString" where
  "substr s n = drop n s"

subsection \<open>Data\<close>

text \<open>
  \<open>Cookies.Cookie\<close> is declared by webextension-polyfill-ts; \<open>getCookieList\<close> reads
  its fields \<open>domain\<close> and \<open>name\<close> only, and the record keeps these two.
  \<open>BadgeInfo\<close> and the cleanup type are declared outside this file: they are the
  type parameters \<open>'b\<close> and \<open>'t\<close>.
\<close>

record Cookie =
  domain :: jsString
  name :: jsString

record 'b CookieListCookie =
  badge :: 'b
  cookie :: Cookie

record 'b CookieListForDomain =
  badge :: 'b
  domain :: jsString
  firstPartyDomain :: jsString
  cookies :: "'b CookieListCookie list"

text \<open>
  The functions \<open>getCookieList\<close> and the comparators call and this file does not
  define: \<open>getDomain\<close> of tldjs (a jsString or \<open>null\<close>),
  \<open>settings.getCleanupTypeForCookie\<close>, \<open>settings.getCleanupTypeForDomain\<close>,
  \<open>getBadgeForCleanupType\<close>, and the runtime's \<open>String.prototype.toLowerCase\<close>.
  They are taken as parameters, and as functions: within one call the same arguments
  give the same answer.
\<close>

record ('t, 'b) Imports =
  getDomain :: "jsString \<Rightarrow> jsString option"
  getCleanupTypeForCookie :: "jsString \<Rightarrow> jsString \<Rightarrow> 't"
  getCleanupTypeForDomain :: "jsString \<Rightarrow> 't"
  getBadgeForCleanupType :: "'t \<Rightarrow> 'b"
  toLowerCase :: "jsString \<Rightarrow> jsString"

datatype error = TypeError

subsection \<open>The comparators\<close>

definition compareCaseInsensitive :: "('t, 'b) Imports \<Rightarrow> jsString \<Rightarrow> jsString \<Rightarrow> int" where
  "compareCaseInsensitive imp a b =
     (let lowerA = toLowerCase imp a;
          lowerB = toLowerCase imp b
      in if lowerA < lowerB then - 1
         else if lowerA > lowerB then 1
         else 0)"

definition compareDomain ::
  "('t, 'b) Imports \<Rightarrow> 'b CookieListForDomain \<Rightarrow> 'b CookieListForDomain \<Rightarrow> int" where
  "compareDomain imp a b =
     (let v = compareCaseInsensitive imp (firstPartyDomain a) (firstPartyDomain b)
      in if v \<noteq> 0 then v
         else compareCaseInsensitive imp
                (CookieListForDomain.domain a) (CookieListForDomain.domain b))"

definition compareCookieName ::
  "('t, 'b) Imports \<Rightarrow> 'b CookieListCookie \<Rightarrow> 'b CookieListCookie \<Rightarrow> int" where
  "compareCookieName imp a b =
     compareCaseInsensitive imp (name (cookie a)) (name (cookie b))"

subsection \<open>Array.prototype.sort\<close>

text \<open>
  \<open>sort\<close> with a comparison function is stable (ECMAScript 2019): elements that
  compare equal keep their order. For a comparison function that is
  a total preorder, as the three above are, this fixes the result, which insertion from
  the right computes: an element goes in front of the first one it does not exceed.
\<close>

fun insertSorted :: "('a \<Rightarrow> 'a \<Rightarrow> int) \<Rightarrow> 'a \<Rightarrow> 'a list \<Rightarrow> 'a list" where
  "insertSorted cmp x [] = [x]"
| "insertSorted cmp x (y # ys) =
     (if cmp x y \<le> 0 then x # y # ys else y # insertSorted cmp x ys)"

definition arraySort :: "('a \<Rightarrow> 'a \<Rightarrow> int) \<Rightarrow> 'a list \<Rightarrow> 'a list" where
  "arraySort cmp xs = foldr (insertSorted cmp) xs []"

subsection \<open>The object \<open>cookiesByDomain\<close>\<close>

text \<open>
  \<open>cookiesByDomain\<close> starts as the object literal \<open>{}\<close>: an ordinary object whose
  prototype is \<open>Object.prototype\<close>. Its state is the table of its own properties, in
  the order of their creation, and its prototype: \<open>None\<close> while that is
  \<open>Object.prototype\<close>, and the group assigned to the key \<open>__proto__\<close> afterwards
  (such an assignment runs the setter of \<open>Object.prototype.__proto__\<close>, which replaces
  the prototype and creates no own property).
\<close>

record 'b CookiesByDomain =
  own :: "(jsString \<times> 'b CookieListForDomain) list"
  proto :: "'b CookieListForDomain option"

definition emptyObject :: "'b CookiesByDomain" where
  "emptyObject = \<lparr>own = [], proto = None\<rparr>"

text \<open>
  What \<open>cookiesByDomain[key]\<close> evaluates to: \<open>undefined\<close>; a group that is an own
  property; the group that is the prototype; a string (the \<open>domain\<close> or
  \<open>firstPartyDomain\<close> of a group that is the prototype); or another object without a
  \<open>cookies\<close> property: a member of \<open>Object.prototype\<close>, \<open>Object.prototype\<close>
  itself, or the \<open>badge\<close> or the \<open>cookies\<close> array of a group that is the prototype.
\<close>

datatype 'b property =
    Undefined
  | OwnGroup "'b CookieListForDomain"
  | ProtoGroup "'b CookieListForDomain"
  | StringValue jsString
  | OtherObject

text \<open>The properties of \<open>Object.prototype\<close> but \<open>__proto__\<close> (ECMAScript, with Annex B).\<close>

definition objectPrototypeNames :: "jsString list" where
  "objectPrototypeNames =
     [str ''constructor'', str ''hasOwnProperty'', str ''isPrototypeOf'', str ''propertyIsEnumerable'',
      str ''toLocaleString'', str ''toString'', str ''valueOf'', str ''__defineGetter__'',
      str ''__defineSetter__'', str ''__lookupGetter__'', str ''__lookupSetter__'']"

definition fromObjectPrototype :: "jsString \<Rightarrow> 'b property" where
  "fromObjectPrototype key = (if key \<in> set objectPrototypeNames then OtherObject else Undefined)"

definition getProperty :: "'b CookiesByDomain \<Rightarrow> jsString \<Rightarrow> 'b property" where
  "getProperty obj key =
     (case map_of (own obj) key of
        Some g \<Rightarrow> OwnGroup g
      | None \<Rightarrow>
          (case proto obj of
             None \<Rightarrow> if key = str ''__proto__'' then OtherObject else fromObjectPrototype key
           | Some g \<Rightarrow>
               if key = str ''__proto__'' then ProtoGroup g
               else if key = str ''badge'' then OtherObject
               else if key = str ''domain'' then StringValue (CookieListForDomain.domain g)
               else if key = str ''firstPartyDomain'' then StringValue (firstPartyDomain g)
               else if key = str ''cookies'' then OtherObject
               else fromObjectPrototype key))"

definition setProperty ::
  "'b CookiesByDomain \<Rightarrow> jsString \<Rightarrow> 'b CookieListForDomain \<Rightarrow> 'b CookiesByDomain" where
  "setProperty obj key g =
     (if key = str ''__proto__'' then obj\<lparr>proto := Some g\<rparr>
      else obj\<lparr>own := AList.update key g (own obj)\<rparr>)"

text \<open>The condition \<open>if (byDomain)\<close>: \<open>undefined\<close> and the empty string are falsy.\<close>

fun truthy :: "'b property \<Rightarrow> bool" where
  "truthy Undefined = False"
| "truthy (StringValue s) = (s \<noteq> [])"
| "truthy (OwnGroup g) = True"
| "truthy (ProtoGroup g) = True"
| "truthy OtherObject = True"

text \<open>
  \<open>byDomain.cookies.push(mapped)\<close>, where \<open>byDomain\<close> is \<open>cookiesByDomain[key]\<close> and
  truthy. On a group the array grows at its end; on any other value \<open>byDomain.cookies\<close>
  is \<open>undefined\<close> and reading its \<open>push\<close> throws a TypeError.
\<close>

fun push :: "'b CookiesByDomain \<Rightarrow> jsString \<Rightarrow> 'b property \<Rightarrow> 'b CookieListCookie \<Rightarrow>
    error + 'b CookiesByDomain" where
  "push obj key (OwnGroup g) mapped =
     Inr (obj\<lparr>own := AList.update key (g\<lparr>cookies := cookies g @ [mapped]\<rparr>) (own obj)\<rparr>)"
| "push obj key (ProtoGroup g) mapped =
     Inr (obj\<lparr>proto := Some (g\<lparr>cookies := cookies g @ [mapped]\<rparr>)\<rparr>)"
| "push obj key v mapped = Inl TypeError"

text \<open>
  \<open>Object.keys\<close>: the own property names, those that are array indices (the canonical
  decimal form of an integer up to \<open>2\<^sup>3\<^sup>2 - 2\<close>) first, in ascending numeric order, and
  the others after them in the order of their creation.
\<close>

definition isDigit :: "nat \<Rightarrow> bool" where
  "isDigit c = (48 \<le> c \<and> c \<le> 57)"

definition toNumber :: "jsString \<Rightarrow> nat" where
  "toNumber s = foldl (\<lambda>n c. 10 * n + (c - 48)) 0 s"

definition isArrayIndex :: "jsString \<Rightarrow> bool" where
  "isArrayIndex s =
     (s \<noteq> [] \<and> list_all isDigit s \<and> (s = str ''0'' \<or> hd s \<noteq> 48) \<and> toNumber s < 4294967295)"

definition objectKeys :: "'b CookiesByDomain \<Rightarrow> jsString list" where
  "objectKeys obj =
     sort_key toNumber (filter isArrayIndex (map fst (own obj)))
       @ filter (\<lambda>k. \<not> isArrayIndex k) (map fst (own obj))"

subsection \<open>getCookieList\<close>

text \<open>
  The constants of the loop body. \<open>rawDomain\<close> is \<open>cookie.domain\<close> without one
  leading dot; \<open>firstPartyDomain\<close> is \<open>getDomain(rawDomain) || rawDomain\<close>, where
  \<open>null\<close> and the empty string are falsy; \<open>mapped\<close> is the cookie with its badge.
\<close>

definition rawDomainOf :: "jsString \<Rightarrow> jsString" where
  "rawDomainOf d = (if startsWith d (str ''.'') then substr d 1 else d)"

definition firstPartyDomainOf :: "('t, 'b) Imports \<Rightarrow> jsString \<Rightarrow> jsString" where
  "firstPartyDomainOf imp rawDomain =
     (case getDomain imp rawDomain of
        None \<Rightarrow> rawDomain
      | Some d \<Rightarrow> if d = [] then rawDomain else d)"

definition mappedOf :: "('t, 'b) Imports \<Rightarrow> Cookie \<Rightarrow> 'b CookieListCookie" where
  "mappedOf imp c =
     (let cleanupTypeForCookie = getCleanupTypeForCookie imp (rawDomainOf (Cookie.domain c)) (name c)
      in \<lparr>CookieListCookie.badge = getBadgeForCleanupType imp cleanupTypeForCookie, cookie = c\<rparr>)"

text \<open>The object literal of the \<open>else\<close> branch: the group a cookie creates.\<close>

definition createdGroup :: "('t, 'b) Imports \<Rightarrow> Cookie \<Rightarrow> 'b CookieListForDomain" where
  "createdGroup imp c =
     \<lparr>CookieListForDomain.badge =
        getBadgeForCleanupType imp (getCleanupTypeForDomain imp (rawDomainOf (Cookie.domain c))),
      domain = Cookie.domain c,
      firstPartyDomain = firstPartyDomainOf imp (rawDomainOf (Cookie.domain c)),
      cookies = [mappedOf imp c]\<rparr>"

text \<open>
  One pass of the body of \<open>for (const cookie of cookies)\<close>: the lookup is by
  \<open>cookie.domain\<close>, the assignment is to the key \<open>rawDomain\<close>.
\<close>

definition loopBody ::
  "('t, 'b) Imports \<Rightarrow> 'b CookiesByDomain \<Rightarrow> Cookie \<Rightarrow> error + 'b CookiesByDomain" where
  "loopBody imp cookiesByDomain c =
     (let byDomain = getProperty cookiesByDomain (Cookie.domain c)
      in if truthy byDomain then push cookiesByDomain (Cookie.domain c) byDomain (mappedOf imp c)
         else Inr (setProperty cookiesByDomain (rawDomainOf (Cookie.domain c))
                (createdGroup imp c)))"

fun forLoop ::
  "('t, 'b) Imports \<Rightarrow> 'b CookiesByDomain \<Rightarrow> Cookie list \<Rightarrow> error + 'b CookiesByDomain" where
  "forLoop imp cookiesByDomain [] = Inr cookiesByDomain"
| "forLoop imp cookiesByDomain (c # cs) =
     (case loopBody imp cookiesByDomain c of
        Inl e \<Rightarrow> Inl e
      | Inr obj \<Rightarrow> forLoop imp obj cs)"

text \<open>
  \<open>Object.keys(cookiesByDomain).map((domain) => cookiesByDomain[domain])\<close>: every key is
  an own property, so each lookup gives the group stored under it.
\<close>

definition groupsOf :: "'b CookiesByDomain \<Rightarrow> 'b CookieListForDomain list" where
  "groupsOf obj =
     concat (map (\<lambda>k. case getProperty obj k of OwnGroup g \<Rightarrow> [g] | _ \<Rightarrow> []) (objectKeys obj))"

definition sortCookies ::
  "('t, 'b) Imports \<Rightarrow> 'b CookieListForDomain \<Rightarrow> 'b CookieListForDomain" where
  "sortCookies imp a = a\<lparr>cookies := arraySort (compareCookieName imp) (cookies a)\<rparr>"

definition getCookieList ::
  "('t, 'b) Imports \<Rightarrow> Cookie list \<Rightarrow> error + 'b CookieListForDomain list" where
  "getCookieList imp allCookies =
     (case forLoop imp emptyObject allCookies of
        Inl e \<Rightarrow> Inl e
      | Inr cookiesByDomain \<Rightarrow>
          Inr (map (sortCookies imp)
                 (arraySort (compareDomain imp) (groupsOf cookiesByDomain))))"

subsection \<open>An invariant of the loop\<close>

text \<open>
  The state of \<open>cookiesByDomain\<close> in which it is the dictionary the loop means it to
  be: its prototype is \<open>Object.prototype\<close>, no key occurs twice, and every group is
  stored under its own \<open>domain\<close>, which is also the domain of each of its cookies.
  \<open>cookiesOf\<close> collects the cookie entries of all groups.
\<close>

definition keyedByDomain :: "'b CookiesByDomain \<Rightarrow> bool" where
  "keyedByDomain obj \<longleftrightarrow>
     proto obj = None \<and> distinct (map fst (own obj)) \<and>
     list_all (\<lambda>p. CookieListForDomain.domain (snd p) = fst p \<and>
                  list_all (\<lambda>m. Cookie.domain (cookie m) = fst p) (cookies (snd p)))
       (own obj)"

definition cookiesOf :: "'b CookiesByDomain \<Rightarrow> 'b CookieListCookie multiset" where
  "cookiesOf obj = mset (concat (map (\<lambda>p. cookies (snd p)) (own obj)))"

section \<open>Properties\<close>

subsection \<open>The comparators and the sort\<close>

lemma compareCaseInsensitive_le:
  "compareCaseInsensitive imp a b \<le> 0 \<longleftrightarrow> toLowerCase imp a \<le> toLowerCase imp b"
  by (auto simp: compareCaseInsensitive_def Let_def)

lemma compareCaseInsensitive_zero:
  "compareCaseInsensitive imp a b = 0 \<longleftrightarrow> toLowerCase imp a = toLowerCase imp b"
  by (auto simp: compareCaseInsensitive_def Let_def)

lemma compareDomain_le:
  "compareDomain imp a b \<le> 0 \<longleftrightarrow>
     toLowerCase imp (firstPartyDomain a) < toLowerCase imp (firstPartyDomain b) \<or>
     toLowerCase imp (firstPartyDomain a) = toLowerCase imp (firstPartyDomain b) \<and>
     toLowerCase imp (CookieListForDomain.domain a) \<le> toLowerCase imp (CookieListForDomain.domain b)"
  by (auto simp: compareDomain_def Let_def compareCaseInsensitive_zero compareCaseInsensitive_le)

lemma compareCookieName_le:
  "compareCookieName imp a b \<le> 0 \<longleftrightarrow>
     toLowerCase imp (name (cookie a)) \<le> toLowerCase imp (name (cookie b))"
  by (simp add: compareCookieName_def compareCaseInsensitive_le)

lemma set_insertSorted: "set (insertSorted cmp x ys) = insert x (set ys)"
  by (induction ys) auto

lemma mset_insertSorted: "mset (insertSorted cmp x ys) = add_mset x (mset ys)"
  by (induction ys) auto

lemma mset_arraySort: "mset (arraySort cmp xs) = mset xs"
  by (induction xs) (simp_all add: arraySort_def mset_insertSorted)

lemma set_arraySort: "set (arraySort cmp xs) = set xs"
  using mset_arraySort [of cmp xs] by (metis set_mset_mset)

text \<open>
  Inserting into a sorted list keeps it sorted, for a comparison function that decides a
  total and transitive relation \<open>le\<close>.
\<close>

lemma sorted_insertSorted:
  assumes total: "\<And>x y. le x y \<or> le y x"
    and trans: "\<And>x y z. le x y \<Longrightarrow> le y z \<Longrightarrow> le x z"
    and cmp: "\<And>x y. cmp x y \<le> 0 \<longleftrightarrow> le x y"
    and sorted: "sorted_wrt le ys"
  shows "sorted_wrt le (insertSorted cmp x ys)"
  using sorted
proof (induction ys)
  case Nil
  show ?case by simp
next
  case (Cons y ys)
  show ?case
  proof (cases "cmp x y \<le> 0")
    case True
    then have "le x y" by (simp add: cmp)
    with Cons.prems show ?thesis using True by (auto intro: trans)
  next
    case False
    then have "le y x" using total [of x y] by (simp add: cmp)
    with Cons show ?thesis using False by (auto simp: set_insertSorted)
  qed
qed

lemma sorted_arraySort:
  assumes total: "\<And>x y. le x y \<or> le y x"
    and trans: "\<And>x y z. le x y \<Longrightarrow> le y z \<Longrightarrow> le x z"
    and cmp: "\<And>x y. cmp x y \<le> 0 \<longleftrightarrow> le x y"
  shows "sorted_wrt le (arraySort cmp xs)"
proof (induction xs)
  case Nil
  show ?case by (simp add: arraySort_def)
next
  case (Cons x xs)
  have "arraySort cmp (x # xs) = insertSorted cmp x (arraySort cmp xs)"
    by (simp add: arraySort_def)
  with Cons show ?case
    using sorted_insertSorted [of le cmp "arraySort cmp xs" x, OF total trans cmp] by simp
qed

lemma sorted_arraySort_compareDomain:
  "sorted_wrt (\<lambda>a b. toLowerCase imp (firstPartyDomain a) < toLowerCase imp (firstPartyDomain b) \<or>
        toLowerCase imp (firstPartyDomain a) = toLowerCase imp (firstPartyDomain b) \<and>
        toLowerCase imp (CookieListForDomain.domain a) \<le> toLowerCase imp (CookieListForDomain.domain b))
     (arraySort (compareDomain imp) gs)"
  by (rule sorted_arraySort) (auto simp: compareDomain_le)

lemma sorted_arraySort_compareCookieName:
  "sorted_wrt (\<lambda>a b. toLowerCase imp (name (cookie a)) \<le> toLowerCase imp (name (cookie b)))
     (arraySort (compareCookieName imp) xs)"
  by (rule sorted_arraySort) (auto simp: compareCookieName_le)

text \<open>Unfolding the definitions evaluates \<open>getCookieList\<close> on a given array.\<close>

lemmas evaluate =
  getCookieList_def loopBody_def emptyObject_def startsWith_def substr_def getProperty_def
  fromObjectPrototype_def objectPrototypeNames_def setProperty_def groupsOf_def objectKeys_def
  isArrayIndex_def isDigit_def toNumber_def arraySort_def sortCookies_def compareCookieName_def
  compareCaseInsensitive_def toLowerCaseASCII_def str_def compareDomain_def rawDomainOf_def
  firstPartyDomainOf_def mappedOf_def createdGroup_def

text \<open>\<open>Object.keys\<close> lists array indices first, by value; \<open>010\<close> is none.\<close>

lemma objectKeys_example:
  "objectKeys \<lparr>own = [(str ''b.org'', g), (str ''10'', g), (str ''9'', g), (str ''010'', g), (str ''a.org'', g)], proto = None\<rparr>
     = [str ''9'', str ''10'', str ''b.org'', str ''010'', str ''a.org'']"
  by (simp add: objectKeys_def isArrayIndex_def isDigit_def toNumber_def str_def)

subsection \<open>The empty array\<close>

text \<open>
  C9: for the empty array of cookies, \<open>getCookieList\<close> returns the empty array of
  groups.
\<close>

theorem getCookieList_empty: "getCookieList imp [] = Inr []"
  by (simp add: getCookieList_def emptyObject_def groupsOf_def objectKeys_def arraySort_def)

lemma sortCookies_fields:
  "cookies (sortCookies imp g) = arraySort (compareCookieName imp) (cookies g)"
  "firstPartyDomain (sortCookies imp g) = firstPartyDomain g"
  "CookieListForDomain.domain (sortCookies imp g) = CookieListForDomain.domain g"
  "CookieListForDomain.badge (sortCookies imp g) = CookieListForDomain.badge g"
  by (simp_all add: sortCookies_def)

subsection \<open>The order of the groups and of their cookies\<close>

text \<open>
  C4, as stated, breaks ties between groups of one first-party domain by the raw domain,
  the domain without its leading dot. \<open>compareDomain\<close> compares the field
  \<open>domain\<close>, which holds \<open>cookie.domain\<close> as it came. The cookies of
  \<open>.b.example.com\<close> and \<open>a.example.com\<close> give the groups in this order, since
  \<open>.\<close> is smaller than \<open>a\<close>; by raw domain \<open>b.example.com\<close> comes after
  \<open>a.example.com\<close>.
\<close>

theorem getCookieList_order_counterexample:
  "getCookieList
     \<lparr>getDomain = (\<lambda>d. Some (str ''example.com'')), getCleanupTypeForCookie = (\<lambda>d n. ()),
      getCleanupTypeForDomain = (\<lambda>d. ()), getBadgeForCleanupType = (\<lambda>t. ()),
      toLowerCase = toLowerCaseASCII\<rparr>
     [\<lparr>Cookie.domain = str ''.b.example.com'', name = str ''x''\<rparr>,
      \<lparr>Cookie.domain = str ''a.example.com'', name = str ''y''\<rparr>]
   = Inr [\<lparr>CookieListForDomain.badge = (), domain = str ''.b.example.com'',
            firstPartyDomain = str ''example.com'',
            cookies = [\<lparr>CookieListCookie.badge = (),
                        cookie = \<lparr>Cookie.domain = str ''.b.example.com'', name = str ''x''\<rparr>\<rparr>]\<rparr>,
          \<lparr>CookieListForDomain.badge = (), domain = str ''a.example.com'',
            firstPartyDomain = str ''example.com'',
            cookies = [\<lparr>CookieListCookie.badge = (),
                        cookie = \<lparr>Cookie.domain = str ''a.example.com'', name = str ''y''\<rparr>\<rparr>]\<rparr>]
   \<and> \<not> sorted_wrt
         (\<lambda>a b. toLowerCaseASCII (firstPartyDomain a) < toLowerCaseASCII (firstPartyDomain b) \<or>
            toLowerCaseASCII (firstPartyDomain a) = toLowerCaseASCII (firstPartyDomain b) \<and>
            toLowerCaseASCII (rawDomainOf (CookieListForDomain.domain a))
              \<le> toLowerCaseASCII (rawDomainOf (CookieListForDomain.domain b)))
         [\<lparr>CookieListForDomain.badge = (), domain = str ''.b.example.com'',
            firstPartyDomain = str ''example.com'',
            cookies = [\<lparr>CookieListCookie.badge = (),
                        cookie = \<lparr>Cookie.domain = str ''.b.example.com'', name = str ''x''\<rparr>\<rparr>]\<rparr>,
          \<lparr>CookieListForDomain.badge = (), domain = str ''a.example.com'',
            firstPartyDomain = str ''example.com'',
            cookies = [\<lparr>CookieListCookie.badge = (),
                        cookie = \<lparr>Cookie.domain = str ''a.example.com'', name = str ''y''\<rparr>\<rparr>]\<rparr>]"
  by (simp add: evaluate)

text \<open>
  C4, amended: whenever \<open>getCookieList\<close> returns, the groups are sorted ascending by
  lower-cased first-party domain, ties broken by the lower-cased field \<open>domain\<close> (the
  domain of the cookie that created the group, leading dot included), and the cookies of
  every group are sorted ascending by lower-cased name. Both orders hold for every pair
  of positions, so for adjacent ones. Lower-casing is the runtime's \<open>toLowerCase\<close>,
  whatever function it is, and strings are compared by code unit.
\<close>

theorem getCookieList_sorted:
  assumes "getCookieList imp allCookies = Inr groups"
  shows "sorted_wrt
           (\<lambda>a b. toLowerCase imp (firstPartyDomain a) < toLowerCase imp (firstPartyDomain b) \<or>
              toLowerCase imp (firstPartyDomain a) = toLowerCase imp (firstPartyDomain b) \<and>
              toLowerCase imp (CookieListForDomain.domain a) \<le> toLowerCase imp (CookieListForDomain.domain b))
           groups \<and>
         (\<forall>g \<in> set groups.
            sorted_wrt (\<lambda>x y. toLowerCase imp (name (cookie x)) \<le> toLowerCase imp (name (cookie y)))
              (cookies g))"
proof -
  from assms obtain obj where
    groups: "groups = map (sortCookies imp) (arraySort (compareDomain imp) (groupsOf obj))"
    by (auto simp: getCookieList_def split: sum.splits)
  have "sorted_wrt
          (\<lambda>a b. toLowerCase imp (firstPartyDomain a) < toLowerCase imp (firstPartyDomain b) \<or>
             toLowerCase imp (firstPartyDomain a) = toLowerCase imp (firstPartyDomain b) \<and>
             toLowerCase imp (CookieListForDomain.domain a) \<le> toLowerCase imp (CookieListForDomain.domain b))
          groups"
    unfolding groups sorted_wrt_map sortCookies_fields
    by (rule sorted_arraySort_compareDomain)
  moreover have "\<forall>g \<in> set groups.
      sorted_wrt (\<lambda>x y. toLowerCase imp (name (cookie x)) \<le> toLowerCase imp (name (cookie y))) (cookies g)"
    unfolding groups
    by (auto simp: sortCookies_fields sorted_arraySort_compareCookieName)
  ultimately show ?thesis by simp
qed

theorem getCookieList_sorted_witness:
  "getCookieList
     \<lparr>getDomain = Some, getCleanupTypeForCookie = (\<lambda>d n. ()),
      getCleanupTypeForDomain = (\<lambda>d. ()), getBadgeForCleanupType = (\<lambda>t. ()),
      toLowerCase = toLowerCaseASCII\<rparr>
     [\<lparr>Cookie.domain = str ''b.org'', name = str ''B''\<rparr>,
      \<lparr>Cookie.domain = str ''A.org'', name = str ''z''\<rparr>,
      \<lparr>Cookie.domain = str ''b.org'', name = str ''a''\<rparr>]
   = Inr [\<lparr>CookieListForDomain.badge = (), domain = str ''A.org'', firstPartyDomain = str ''A.org'',
            cookies = [\<lparr>CookieListCookie.badge = (),
                        cookie = \<lparr>Cookie.domain = str ''A.org'', name = str ''z''\<rparr>\<rparr>]\<rparr>,
          \<lparr>CookieListForDomain.badge = (), domain = str ''b.org'', firstPartyDomain = str ''b.org'',
            cookies = [\<lparr>CookieListCookie.badge = (),
                        cookie = \<lparr>Cookie.domain = str ''b.org'', name = str ''a''\<rparr>\<rparr>,
                       \<lparr>CookieListCookie.badge = (),
                        cookie = \<lparr>Cookie.domain = str ''b.org'', name = str ''B''\<rparr>\<rparr>]\<rparr>]
   \<and> sorted_wrt
         (\<lambda>a b. toLowerCaseASCII (firstPartyDomain a) < toLowerCaseASCII (firstPartyDomain b) \<or>
            toLowerCaseASCII (firstPartyDomain a) = toLowerCaseASCII (firstPartyDomain b) \<and>
            toLowerCaseASCII (CookieListForDomain.domain a) \<le> toLowerCaseASCII (CookieListForDomain.domain b))
         [\<lparr>CookieListForDomain.badge = (), domain = str ''A.org'', firstPartyDomain = str ''A.org'',
            cookies = [\<lparr>CookieListCookie.badge = (),
                        cookie = \<lparr>Cookie.domain = str ''A.org'', name = str ''z''\<rparr>\<rparr>]\<rparr>,
          \<lparr>CookieListForDomain.badge = (), domain = str ''b.org'', firstPartyDomain = str ''b.org'',
            cookies = [\<lparr>CookieListCookie.badge = (),
                        cookie = \<lparr>Cookie.domain = str ''b.org'', name = str ''a''\<rparr>\<rparr>,
                       \<lparr>CookieListCookie.badge = (),
                        cookie = \<lparr>Cookie.domain = str ''b.org'', name = str ''B''\<rparr>\<rparr>]\<rparr>]
   \<and> sorted_wrt (\<lambda>x y. toLowerCaseASCII (name (cookie x)) \<le> toLowerCaseASCII (name (cookie y)))
         [\<lparr>CookieListCookie.badge = (), cookie = \<lparr>Cookie.domain = str ''b.org'', name = str ''a''\<rparr>\<rparr>,
          \<lparr>CookieListCookie.badge = (), cookie = \<lparr>Cookie.domain = str ''b.org'', name = str ''B''\<rparr>\<rparr>]"
proof -
  let ?imp = "\<lparr>getDomain = Some, getCleanupTypeForCookie = (\<lambda>d n. ()),
      getCleanupTypeForDomain = (\<lambda>d. ()), getBadgeForCleanupType = (\<lambda>t. ()),
      toLowerCase = toLowerCaseASCII\<rparr>"
  let ?cs = "[\<lparr>Cookie.domain = str ''b.org'', name = str ''B''\<rparr>,
      \<lparr>Cookie.domain = str ''A.org'', name = str ''z''\<rparr>,
      \<lparr>Cookie.domain = str ''b.org'', name = str ''a''\<rparr>]"
  let ?gs = "[\<lparr>CookieListForDomain.badge = (), domain = str ''A.org'', firstPartyDomain = str ''A.org'',
            cookies = [\<lparr>CookieListCookie.badge = (),
                        cookie = \<lparr>Cookie.domain = str ''A.org'', name = str ''z''\<rparr>\<rparr>]\<rparr>,
          \<lparr>CookieListForDomain.badge = (), domain = str ''b.org'', firstPartyDomain = str ''b.org'',
            cookies = [\<lparr>CookieListCookie.badge = (),
                        cookie = \<lparr>Cookie.domain = str ''b.org'', name = str ''a''\<rparr>\<rparr>,
                       \<lparr>CookieListCookie.badge = (),
                        cookie = \<lparr>Cookie.domain = str ''b.org'', name = str ''B''\<rparr>\<rparr>]\<rparr>]"
  have run: "getCookieList ?imp ?cs = Inr ?gs"
    by (simp add: evaluate)
  from getCookieList_sorted [OF run] show ?thesis
    using run by simp
qed

text \<open>
  Names that differ in case only compare equal, and the sort keeps their order: with a
  \<open>toLowerCase\<close> that takes the code unit 201 (\<open>U+00C9\<close>) to 233 (\<open>U+00E9\<close>),
  two cookies of one domain with these names come out as they went in.
\<close>

lemma getCookieList_equal_lower_case_names:
  "getCookieList
     \<lparr>getDomain = Some, getCleanupTypeForCookie = (\<lambda>d n. ()),
      getCleanupTypeForDomain = (\<lambda>d. ()), getBadgeForCleanupType = (\<lambda>t. ()),
      toLowerCase = map (\<lambda>c. if c = 201 then 233 else c)\<rparr>
     [\<lparr>Cookie.domain = str ''a.org'', name = [233]\<rparr>,
      \<lparr>Cookie.domain = str ''a.org'', name = [201]\<rparr>]
   = Inr [\<lparr>CookieListForDomain.badge = (), domain = str ''a.org'',
            firstPartyDomain = str ''a.org'',
            cookies = [\<lparr>CookieListCookie.badge = (),
                        cookie = \<lparr>Cookie.domain = str ''a.org'', name = [233]\<rparr>\<rparr>,
                       \<lparr>CookieListCookie.badge = (),
                        cookie = \<lparr>Cookie.domain = str ''a.org'', name = [201]\<rparr>\<rparr>]\<rparr>]"
  by (simp add: evaluate)

subsection \<open>Sorting keeps the stored strings\<close>

text \<open>
  C8: the groups \<open>getCookieList\<close> returns are the groups as they were before the two
  sorts, \<open>Object.keys(cookiesByDomain).map(...)\<close>, in another order: as multisets,
  the quadruples of \<open>domain\<close>, \<open>firstPartyDomain\<close>, \<open>badge\<close> and the multiset
  of cookie entries are the same. The comparators lower-case their own copies.
\<close>

theorem sorting_keeps_stored_strings:
  assumes "forLoop imp emptyObject allCookies = Inr cookiesByDomain"
    and "getCookieList imp allCookies = Inr groups"
  shows "mset (map (\<lambda>g. (CookieListForDomain.domain g, firstPartyDomain g,
                       CookieListForDomain.badge g, mset (cookies g))) groups)
       = mset (map (\<lambda>g. (CookieListForDomain.domain g, firstPartyDomain g,
                       CookieListForDomain.badge g, mset (cookies g)))
                (groupsOf cookiesByDomain))"
proof -
  from assms have groups:
    "groups = map (sortCookies imp) (arraySort (compareDomain imp) (groupsOf cookiesByDomain))"
    by (simp add: getCookieList_def)
  have "map (\<lambda>g. (CookieListForDomain.domain g, firstPartyDomain g,
                  CookieListForDomain.badge g, mset (cookies g))) groups
      = map (\<lambda>g. (CookieListForDomain.domain g, firstPartyDomain g,
                  CookieListForDomain.badge g, mset (cookies g)))
          (arraySort (compareDomain imp) (groupsOf cookiesByDomain))"
    unfolding groups by (simp add: sortCookies_fields mset_arraySort)
  then show ?thesis
    by (simp add: mset_arraySort)
qed

theorem sorting_keeps_stored_strings_witness:
  "forLoop
     \<lparr>getDomain = Some, getCleanupTypeForCookie = (\<lambda>d n. ()),
      getCleanupTypeForDomain = (\<lambda>d. ()), getBadgeForCleanupType = (\<lambda>t. ()),
      toLowerCase = toLowerCaseASCII\<rparr>
     emptyObject
     [\<lparr>Cookie.domain = str ''B.org'', name = str ''SID''\<rparr>, \<lparr>Cookie.domain = str ''a.org'', name = str ''y''\<rparr>]
   = Inr \<lparr>own =
       [(str ''B.org'',
         \<lparr>CookieListForDomain.badge = (), domain = str ''B.org'', firstPartyDomain = str ''B.org'',
          cookies = [\<lparr>CookieListCookie.badge = (),
                      cookie = \<lparr>Cookie.domain = str ''B.org'', name = str ''SID''\<rparr>\<rparr>]\<rparr>),
        (str ''a.org'',
         \<lparr>CookieListForDomain.badge = (), domain = str ''a.org'', firstPartyDomain = str ''a.org'',
          cookies = [\<lparr>CookieListCookie.badge = (),
                      cookie = \<lparr>Cookie.domain = str ''a.org'', name = str ''y''\<rparr>\<rparr>]\<rparr>)],
       proto = None\<rparr>
   \<and> getCookieList
     \<lparr>getDomain = Some, getCleanupTypeForCookie = (\<lambda>d n. ()),
      getCleanupTypeForDomain = (\<lambda>d. ()), getBadgeForCleanupType = (\<lambda>t. ()),
      toLowerCase = toLowerCaseASCII\<rparr>
     [\<lparr>Cookie.domain = str ''B.org'', name = str ''SID''\<rparr>, \<lparr>Cookie.domain = str ''a.org'', name = str ''y''\<rparr>]
   = Inr
       [\<lparr>CookieListForDomain.badge = (), domain = str ''a.org'', firstPartyDomain = str ''a.org'',
          cookies = [\<lparr>CookieListCookie.badge = (),
                      cookie = \<lparr>Cookie.domain = str ''a.org'', name = str ''y''\<rparr>\<rparr>]\<rparr>,
        \<lparr>CookieListForDomain.badge = (), domain = str ''B.org'', firstPartyDomain = str ''B.org'',
          cookies = [\<lparr>CookieListCookie.badge = (),
                      cookie = \<lparr>Cookie.domain = str ''B.org'', name = str ''SID''\<rparr>\<rparr>]\<rparr>]
   \<and> mset (map (\<lambda>g. (CookieListForDomain.domain g, firstPartyDomain g,
                      CookieListForDomain.badge g, mset (cookies g)))
       [\<lparr>CookieListForDomain.badge = (), domain = str ''a.org'', firstPartyDomain = str ''a.org'',
          cookies = [\<lparr>CookieListCookie.badge = (),
                      cookie = \<lparr>Cookie.domain = str ''a.org'', name = str ''y''\<rparr>\<rparr>]\<rparr>,
        \<lparr>CookieListForDomain.badge = (), domain = str ''B.org'', firstPartyDomain = str ''B.org'',
          cookies = [\<lparr>CookieListCookie.badge = (),
                      cookie = \<lparr>Cookie.domain = str ''B.org'', name = str ''SID''\<rparr>\<rparr>]\<rparr>])
     = mset (map (\<lambda>g. (CookieListForDomain.domain g, firstPartyDomain g,
                      CookieListForDomain.badge g, mset (cookies g)))
       (groupsOf \<lparr>own =
       [(str ''B.org'',
         \<lparr>CookieListForDomain.badge = (), domain = str ''B.org'', firstPartyDomain = str ''B.org'',
          cookies = [\<lparr>CookieListCookie.badge = (),
                      cookie = \<lparr>Cookie.domain = str ''B.org'', name = str ''SID''\<rparr>\<rparr>]\<rparr>),
        (str ''a.org'',
         \<lparr>CookieListForDomain.badge = (), domain = str ''a.org'', firstPartyDomain = str ''a.org'',
          cookies = [\<lparr>CookieListCookie.badge = (),
                      cookie = \<lparr>Cookie.domain = str ''a.org'', name = str ''y''\<rparr>\<rparr>]\<rparr>)],
       proto = None\<rparr>))"
proof -
  let ?imp = "\<lparr>getDomain = Some, getCleanupTypeForCookie = (\<lambda>d n. ()),
      getCleanupTypeForDomain = (\<lambda>d. ()), getBadgeForCleanupType = (\<lambda>t. ()),
      toLowerCase = toLowerCaseASCII\<rparr>"
  let ?cs = "[\<lparr>Cookie.domain = str ''B.org'', name = str ''SID''\<rparr>,
              \<lparr>Cookie.domain = str ''a.org'', name = str ''y''\<rparr>]"
  let ?gB = "\<lparr>CookieListForDomain.badge = (), domain = str ''B.org'', firstPartyDomain = str ''B.org'',
          cookies = [\<lparr>CookieListCookie.badge = (),
                      cookie = \<lparr>Cookie.domain = str ''B.org'', name = str ''SID''\<rparr>\<rparr>]\<rparr>"
  let ?ga = "\<lparr>CookieListForDomain.badge = (), domain = str ''a.org'', firstPartyDomain = str ''a.org'',
          cookies = [\<lparr>CookieListCookie.badge = (),
                      cookie = \<lparr>Cookie.domain = str ''a.org'', name = str ''y''\<rparr>\<rparr>]\<rparr>"
  have loop: "forLoop ?imp emptyObject ?cs = Inr \<lparr>own = [(str ''B.org'', ?gB), (str ''a.org'', ?ga)], proto = None\<rparr>"
    by (simp add: evaluate)
  have run: "getCookieList ?imp ?cs = Inr [?ga, ?gB]"
    by (simp add: evaluate)
  from sorting_keeps_stored_strings [OF loop run] loop run show ?thesis
    by simp
qed

subsection \<open>The example of two cookies of one domain\<close>

text \<open>
  C3, as stated, expects the one group to carry the domain \<open>example.com\<close>. The group
  is created by the first cookie and keeps that cookie's domain as it came,
  \<open>.example.com\<close>.
\<close>

theorem getCookieList_example_counterexample:
  "getCookieList
     \<lparr>getDomain = (\<lambda>d. Some (str ''example.com'')), getCleanupTypeForCookie = (\<lambda>d n. ()),
      getCleanupTypeForDomain = (\<lambda>d. ()), getBadgeForCleanupType = (\<lambda>t. ()),
      toLowerCase = toLowerCaseASCII\<rparr>
     [\<lparr>Cookie.domain = str ''.example.com'', name = str ''b''\<rparr>,
      \<lparr>Cookie.domain = str ''example.com'', name = str ''a''\<rparr>]
   \<noteq> Inr [\<lparr>CookieListForDomain.badge = (), domain = str ''example.com'',
            firstPartyDomain = str ''example.com'',
            cookies = [\<lparr>CookieListCookie.badge = (),
                        cookie = \<lparr>Cookie.domain = str ''example.com'', name = str ''a''\<rparr>\<rparr>,
                       \<lparr>CookieListCookie.badge = (),
                        cookie = \<lparr>Cookie.domain = str ''.example.com'', name = str ''b''\<rparr>\<rparr>]\<rparr>]"
  by (simp add: evaluate)

text \<open>
  C3, amended: for the cookies \<open>{domain: ".example.com", name: "b"}\<close> and
  \<open>{domain: "example.com", name: "a"}\<close>, in this order, with \<open>getDomain\<close>
  returning \<open>example.com\<close> for \<open>example.com\<close>, \<open>getCookieList\<close> returns
  exactly one group: its \<open>domain\<close> is \<open>.example.com\<close>, its
  \<open>firstPartyDomain\<close> is \<open>example.com\<close>, and its cookies are the two cookies in
  the order of their names, \<open>a\<close> then \<open>b\<close> (\<open>toLowerCase\<close> leaves these two
  names as they are).
\<close>

theorem getCookieList_example:
  assumes "getDomain imp (str ''example.com'') = Some (str ''example.com'')"
    and "toLowerCase imp (str ''a'') = str ''a''"
    and "toLowerCase imp (str ''b'') = str ''b''"
  shows "getCookieList imp
     [\<lparr>Cookie.domain = str ''.example.com'', name = str ''b''\<rparr>,
      \<lparr>Cookie.domain = str ''example.com'', name = str ''a''\<rparr>]
   = Inr [\<lparr>CookieListForDomain.badge =
              getBadgeForCleanupType imp (getCleanupTypeForDomain imp (str ''example.com'')),
            domain = str ''.example.com'',
            firstPartyDomain = str ''example.com'',
            cookies = [\<lparr>CookieListCookie.badge =
                          getBadgeForCleanupType imp
                            (getCleanupTypeForCookie imp (str ''example.com'') (str ''a'')),
                        cookie = \<lparr>Cookie.domain = str ''example.com'', name = str ''a''\<rparr>\<rparr>,
                       \<lparr>CookieListCookie.badge =
                          getBadgeForCleanupType imp
                            (getCleanupTypeForCookie imp (str ''example.com'') (str ''b'')),
                        cookie = \<lparr>Cookie.domain = str ''.example.com'', name = str ''b''\<rparr>\<rparr>]\<rparr>]"
  using assms by (simp add: evaluate)

theorem getCookieList_example_witness:
  "getCookieList
     \<lparr>getDomain = (\<lambda>d. Some (str ''example.com'')), getCleanupTypeForCookie = (\<lambda>d n. ()),
      getCleanupTypeForDomain = (\<lambda>d. ()), getBadgeForCleanupType = (\<lambda>t. ()),
      toLowerCase = toLowerCaseASCII\<rparr>
     [\<lparr>Cookie.domain = str ''.example.com'', name = str ''b''\<rparr>,
      \<lparr>Cookie.domain = str ''example.com'', name = str ''a''\<rparr>]
   = Inr [\<lparr>CookieListForDomain.badge = (), domain = str ''.example.com'',
            firstPartyDomain = str ''example.com'',
            cookies = [\<lparr>CookieListCookie.badge = (),
                        cookie = \<lparr>Cookie.domain = str ''example.com'', name = str ''a''\<rparr>\<rparr>,
                       \<lparr>CookieListCookie.badge = (),
                        cookie = \<lparr>Cookie.domain = str ''.example.com'', name = str ''b''\<rparr>\<rparr>]\<rparr>]"
  using getCookieList_example
    [of "\<lparr>getDomain = (\<lambda>d. Some (str ''example.com'')), getCleanupTypeForCookie = (\<lambda>d n. ()),
      getCleanupTypeForDomain = (\<lambda>d. ()), getBadgeForCleanupType = (\<lambda>t. ()),
      toLowerCase = toLowerCaseASCII\<rparr>"]
  by (simp add: toLowerCaseASCII_def str_def)

subsection \<open>Lookup by \<open>cookie.domain\<close>, assignment to \<open>rawDomain\<close>\<close>

text \<open>
  The loop looks a group up under \<open>cookie.domain\<close> and stores a new group under
  \<open>rawDomain\<close>. For a cookie whose domain starts with a dot the two keys differ: the
  lookup misses the group stored under the raw domain, and the assignment replaces it.
  The following results run the code on the cookies of \<open>example.com\<close> and
  \<open>.example.com\<close>, in this order.
\<close>

text \<open>
  C1 (the number of cookie entries across all groups equals the number of cookies):
  on these two cookies the groups returned hold one cookie entry.
\<close>

theorem getCookieList_count_lost:
  "(case getCookieList imp
           [\<lparr>Cookie.domain = str ''example.com'', name = str ''a''\<rparr>,
            \<lparr>Cookie.domain = str ''.example.com'', name = str ''b''\<rparr>] of
      Inl e \<Rightarrow> 0
    | Inr groups \<Rightarrow> sum_list (map (\<lambda>g. length (cookies g)) groups)) = (1::nat)"
  by (simp add: evaluate)

text \<open>
  C2 (two cookies of one raw domain are in the same group, in either order): on these
  two cookies the one group returned holds the cookie \<open>b\<close> only; the cookie \<open>a\<close>
  is in no group.
\<close>

theorem getCookieList_group_replaced:
  "getCookieList imp
     [\<lparr>Cookie.domain = str ''example.com'', name = str ''a''\<rparr>,
      \<lparr>Cookie.domain = str ''.example.com'', name = str ''b''\<rparr>]
   = Inr [\<lparr>CookieListForDomain.badge =
              getBadgeForCleanupType imp (getCleanupTypeForDomain imp (str ''example.com'')),
            domain = str ''.example.com'',
            firstPartyDomain = firstPartyDomainOf imp (str ''example.com''),
            cookies = [\<lparr>CookieListCookie.badge =
                          getBadgeForCleanupType imp
                            (getCleanupTypeForCookie imp (str ''example.com'') (str ''b'')),
                        cookie = \<lparr>Cookie.domain = str ''.example.com'', name = str ''b''\<rparr>\<rparr>]\<rparr>]"
  by (simp add: evaluate)

text \<open>
  C5 (a later cookie of a bucket is appended to the group of the bucket): after the
  loop, the property \<open>example.com\<close> holds the group that the second cookie created;
  the second cookie was not appended to the group of the first.
\<close>

theorem forLoop_second_cookie_not_appended:
  "forLoop imp emptyObject
     [\<lparr>Cookie.domain = str ''example.com'', name = str ''a''\<rparr>,
      \<lparr>Cookie.domain = str ''.example.com'', name = str ''b''\<rparr>]
   = Inr \<lparr>own = [(str ''example.com'',
                   createdGroup imp \<lparr>Cookie.domain = str ''.example.com'', name = str ''b''\<rparr>)],
          proto = None\<rparr>"
  by (simp add: loopBody_def emptyObject_def getProperty_def fromObjectPrototype_def
      objectPrototypeNames_def setProperty_def rawDomainOf_def startsWith_def substr_def
      str_def)

lemma firstPartyDomainOf_unresolved:
  "getDomain imp rawDomain = None \<Longrightarrow> firstPartyDomainOf imp rawDomain = rawDomain"
  by (simp add: firstPartyDomainOf_def)

text \<open>
  C6 (a cookie whose raw domain \<open>getDomain\<close> does not resolve still appears in the
  result): with \<open>getDomain\<close> returning \<open>null\<close>, the raw domain \<open>localhost\<close> is
  taken as the first-party domain, and of the cookies of \<open>localhost\<close> and
  \<open>.localhost\<close> the first one is not in the result.
\<close>

theorem getCookieList_unresolved_domain_lost:
  "getCookieList (imp\<lparr>getDomain := (\<lambda>d. None)\<rparr>)
     [\<lparr>Cookie.domain = str ''localhost'', name = str ''a''\<rparr>,
      \<lparr>Cookie.domain = str ''.localhost'', name = str ''b''\<rparr>]
   = Inr [\<lparr>CookieListForDomain.badge =
              getBadgeForCleanupType imp (getCleanupTypeForDomain imp (str ''localhost'')),
            domain = str ''.localhost'',
            firstPartyDomain = str ''localhost'',
            cookies = [\<lparr>CookieListCookie.badge =
                          getBadgeForCleanupType imp
                            (getCleanupTypeForCookie imp (str ''localhost'') (str ''b'')),
                        cookie = \<lparr>Cookie.domain = str ''.localhost'', name = str ''b''\<rparr>\<rparr>]\<rparr>]"
  by (simp add: evaluate)

subsection \<open>Keys that \<open>Object.prototype\<close> defines\<close>

text \<open>
  C10 (without leading dots every cookie is in exactly one group): for a cookie of the
  host \<open>constructor\<close>, \<open>cookiesByDomain["constructor"]\<close> is the function
  \<open>Object\<close>, inherited from \<open>Object.prototype\<close>; it is truthy and has no
  \<open>cookies\<close>, so \<open>byDomain.cookies.push\<close> throws a TypeError and
  \<open>getCookieList\<close> returns no groups.
\<close>

theorem getCookieList_inherited_property:
  "getCookieList imp [\<lparr>Cookie.domain = str ''constructor'', name = str ''a''\<rparr>] = Inl TypeError"
  by (simp add: evaluate)

subsection \<open>Domains without a leading dot\<close>

text \<open>
  For a cookie whose domain has no leading dot, \<open>rawDomain\<close> is \<open>cookie.domain\<close>:
  the lookup and the assignment use one key. When that key is also none that
  \<open>Object.prototype\<close> defines, a pass of the loop appends the cookie to the group
  stored under its domain, or creates that group at the end of the table.
\<close>

lemma mset_objectKeys: "mset (objectKeys obj) = mset (map fst (own obj))"
  by (simp add: objectKeys_def flip: multiset_partition)

lemma getProperty_own:
  assumes "distinct (map fst (own obj))" and "(k, g) \<in> set (own obj)"
  shows "getProperty obj k = OwnGroup g"
  using assms by (simp add: getProperty_def)

lemma mset_concat_map_cong:
  assumes "mset ks = mset ks'"
  shows "mset (concat (map f ks)) = mset (concat (map f ks'))"
proof -
  have "mset (concat (map f zs)) = (\<Sum>k \<in># mset zs. mset (f k))" for zs
    by (induction zs) simp_all
  with assms show ?thesis by simp
qed

lemma concat_map_singletons:
  assumes "\<forall>p \<in> set ps. f (fst p) = [snd p]"
  shows "concat (map f (map fst ps)) = map snd ps"
  using assms by (induction ps) simp_all

lemma mset_groupsOf:
  assumes "distinct (map fst (own obj))"
  shows "mset (groupsOf obj) = mset (map snd (own obj))"
proof -
  let ?f = "\<lambda>k. case getProperty obj k of OwnGroup g \<Rightarrow> [g] | _ \<Rightarrow> []"
  have "\<forall>p \<in> set (own obj). ?f (fst p) = [snd p]"
    using getProperty_own [OF assms] by auto
  then have "concat (map ?f (map fst (own obj))) = map snd (own obj)"
    by (rule concat_map_singletons)
  moreover have "mset (groupsOf obj) = mset (concat (map ?f (map fst (own obj))))"
    unfolding groupsOf_def by (rule mset_concat_map_cong) (rule mset_objectKeys)
  ultimately show ?thesis by simp
qed

lemma update_absent:
  assumes "map_of ps k = None"
  shows "AList.update k v ps = ps @ [(k, v)]"
  using assms by (induction ps) (auto split: if_splits)

lemma list_all_update:
  assumes "list_all P ps" and "P (k, v)"
  shows "list_all P (AList.update k v ps)"
  using assms by (induction ps) auto

lemma cookies_update_present:
  assumes "map_of ps k = Some g"
  shows "mset (concat (map (\<lambda>p. cookies (snd p))
            (AList.update k (g\<lparr>cookies := cookies g @ [m]\<rparr>) ps)))
       = add_mset m (mset (concat (map (\<lambda>p. cookies (snd p)) ps)))"
  using assms by (induction ps) (auto split: if_splits)

lemma getProperty_plain:
  assumes "k \<notin> set (str ''__proto__'' # objectPrototypeNames)" and "proto obj = None"
  shows "getProperty obj k =
     (case map_of (own obj) k of None \<Rightarrow> Undefined | Some g \<Rightarrow> OwnGroup g)"
proof (cases "map_of (own obj) k")
  case None
  with assms show ?thesis by (simp add: getProperty_def fromObjectPrototype_def)
next
  case (Some g)
  then show ?thesis by (simp add: getProperty_def)
qed

lemma loopBody_plain:
  assumes "\<not> startsWith (Cookie.domain c) (str ''.'')"
    and "Cookie.domain c \<notin> set (str ''__proto__'' # objectPrototypeNames)"
    and "proto obj = None"
  shows "loopBody imp obj c =
     Inr (obj\<lparr>own := AList.update (Cookie.domain c)
            (case map_of (own obj) (Cookie.domain c) of
               None \<Rightarrow> createdGroup imp c
             | Some g \<Rightarrow> g\<lparr>cookies := cookies g @ [mappedOf imp c]\<rparr>)
            (own obj)\<rparr>)"
proof (cases "map_of (own obj) (Cookie.domain c)")
  case None
  moreover from assms(1) have "rawDomainOf (Cookie.domain c) = Cookie.domain c"
    by (simp add: rawDomainOf_def)
  moreover from assms(2) have "Cookie.domain c \<noteq> (str ''__proto__'')" by simp
  ultimately show ?thesis
    using getProperty_plain [OF assms(2,3)] by (simp add: loopBody_def setProperty_def)
next
  case (Some g)
  then show ?thesis
    using getProperty_plain [OF assms(2,3)] by (simp add: loopBody_def)
qed

lemma loopBody_keyedByDomain:
  assumes plain: "\<not> startsWith (Cookie.domain c) (str ''.'')"
      "Cookie.domain c \<notin> set (str ''__proto__'' # objectPrototypeNames)"
    and inv: "keyedByDomain obj"
  shows "\<exists>obj'. loopBody imp obj c = Inr obj' \<and> keyedByDomain obj' \<and>
           cookiesOf obj' = add_mset (mappedOf imp c) (cookiesOf obj)"
proof -
  let ?k = "Cookie.domain c"
  let ?v = "case map_of (own obj) ?k of
               None \<Rightarrow> createdGroup imp c
             | Some g \<Rightarrow> g\<lparr>cookies := cookies g @ [mappedOf imp c]\<rparr>"
  let ?obj' = "obj\<lparr>own := AList.update ?k ?v (own obj)\<rparr>"
  let ?P = "\<lambda>p. CookieListForDomain.domain (snd p) = fst p \<and>
                  list_all (\<lambda>m. Cookie.domain (cookie m) = fst p) (cookies (snd p))"
  from inv have proto: "proto obj = None" and dist: "distinct (map fst (own obj))"
    and all: "list_all ?P (own obj)"
    by (simp_all add: keyedByDomain_def)
  have step: "loopBody imp obj c = Inr ?obj'"
    using plain proto by (rule loopBody_plain)
  have new: "?P (?k, ?v)"
  proof (cases "map_of (own obj) ?k")
    case None
    then show ?thesis
      by (simp add: createdGroup_def mappedOf_def)
  next
    case (Some g)
    then have "(?k, g) \<in> set (own obj)" by (rule map_of_SomeD)
    with all have "?P (?k, g)" by (auto simp: list_all_iff)
    with Some show ?thesis by (simp add: mappedOf_def)
  qed
  have "keyedByDomain ?obj'"
    using proto dist list_all_update [OF all new]
    by (simp add: keyedByDomain_def AList.distinct_update)
  moreover have "cookiesOf ?obj' = add_mset (mappedOf imp c) (cookiesOf obj)"
  proof (cases "map_of (own obj) ?k")
    case None
    then show ?thesis
      by (simp add: cookiesOf_def update_absent createdGroup_def)
  next
    case (Some g)
    then show ?thesis
      by (simp add: cookiesOf_def cookies_update_present)
  qed
  ultimately show ?thesis using step by blast
qed

lemma forLoop_keyedByDomain:
  assumes "\<forall>c \<in> set cs. \<not> startsWith (Cookie.domain c) (str ''.'') \<and>
             Cookie.domain c \<notin> set (str ''__proto__'' # objectPrototypeNames)"
    and "keyedByDomain obj"
  shows "\<exists>obj'. forLoop imp obj cs = Inr obj' \<and> keyedByDomain obj' \<and>
           cookiesOf obj' = cookiesOf obj + mset (map (mappedOf imp) cs)"
  using assms
proof (induction cs arbitrary: obj)
  case Nil
  then show ?case by simp
next
  case (Cons c cs)
  from Cons.prems obtain obj1 where
    step: "loopBody imp obj c = Inr obj1" and inv1: "keyedByDomain obj1"
    and c1: "cookiesOf obj1 = add_mset (mappedOf imp c) (cookiesOf obj)"
    using loopBody_keyedByDomain [of c obj imp] by auto
  from Cons.prems have "\<forall>c \<in> set cs. \<not> startsWith (Cookie.domain c) (str ''.'') \<and>
             Cookie.domain c \<notin> set (str ''__proto__'' # objectPrototypeNames)"
    by simp
  from Cons.IH [OF this inv1] obtain obj' where
    "forLoop imp obj1 cs = Inr obj'" "keyedByDomain obj'"
    "cookiesOf obj' = cookiesOf obj1 + mset (map (mappedOf imp) cs)"
    by blast
  with step c1 show ?case by simp
qed

lemma keyedByDomain_emptyObject: "keyedByDomain emptyObject"
  by (simp add: keyedByDomain_def emptyObject_def)

lemma cookiesOf_emptyObject: "cookiesOf emptyObject = {#}"
  by (simp add: cookiesOf_def emptyObject_def)

lemma mset_concat_arraySort:
  "mset (concat (map (\<lambda>g. arraySort cmp (f g)) gs)) = mset (concat (map f gs))"
  by (induction gs) (simp_all add: mset_arraySort)

text \<open>
  On an array of cookies none of whose domains starts with a dot or is a key that
  \<open>Object.prototype\<close> defines, \<open>getCookieList\<close> returns; the cookie entries of
  all groups together are the cookies of the array, each once, with its badge; no two
  groups have the same \<open>domain\<close>; and every cookie is in the group of its domain.
\<close>

theorem getCookieList_plain_domains:
  assumes "\<forall>c \<in> set allCookies. \<not> startsWith (Cookie.domain c) (str ''.'') \<and>
             Cookie.domain c \<notin> set (str ''__proto__'' # objectPrototypeNames)"
  shows "\<exists>groups. getCookieList imp allCookies = Inr groups \<and>
           mset (concat (map cookies groups)) = mset (map (mappedOf imp) allCookies) \<and>
           distinct (map CookieListForDomain.domain groups) \<and>
           (\<forall>g \<in> set groups. \<forall>m \<in> set (cookies g).
              Cookie.domain (cookie m) = CookieListForDomain.domain g)"
proof -
  from forLoop_keyedByDomain [OF assms keyedByDomain_emptyObject, of imp]
  obtain obj where loop: "forLoop imp emptyObject allCookies = Inr obj"
    and inv: "keyedByDomain obj"
    and all: "cookiesOf obj = mset (map (mappedOf imp) allCookies)"
    by (auto simp: cookiesOf_emptyObject)
  let ?sorted = "arraySort (compareDomain imp) (groupsOf obj)"
  let ?groups = "map (sortCookies imp) ?sorted"
  from inv have dist: "distinct (map fst (own obj))"
    and keyed: "\<forall>p \<in> set (own obj). CookieListForDomain.domain (snd p) = fst p \<and>
                  (\<forall>m \<in> set (cookies (snd p)). Cookie.domain (cookie m) = fst p)"
    by (simp_all add: keyedByDomain_def list_all_iff)
  have perm: "mset ?sorted = mset (map snd (own obj))"
    by (simp add: mset_arraySort mset_groupsOf [OF dist])
  have run: "getCookieList imp allCookies = Inr ?groups"
    using loop by (simp add: getCookieList_def)
  have "concat (map cookies ?groups)
      = concat (map (\<lambda>g. arraySort (compareCookieName imp) (cookies g)) ?sorted)"
    by (simp add: sortCookies_def comp_def)
  then have "mset (concat (map cookies ?groups)) = mset (concat (map cookies ?sorted))"
    by (simp only: mset_concat_arraySort)
  also have "\<dots> = mset (concat (map cookies (map snd (own obj))))"
    using perm by (rule mset_concat_map_cong)
  also have "\<dots> = cookiesOf obj"
    by (simp add: cookiesOf_def comp_def)
  finally have count: "mset (concat (map cookies ?groups)) = mset (map (mappedOf imp) allCookies)"
    using all by simp
  have d1: "map CookieListForDomain.domain ?groups = map CookieListForDomain.domain ?sorted"
    by (simp add: sortCookies_def)
  have d2: "mset (map CookieListForDomain.domain ?sorted)
      = mset (map CookieListForDomain.domain (map snd (own obj)))"
    using perm by (metis mset_map)
  have d3: "map CookieListForDomain.domain (map snd (own obj)) = map fst (own obj)"
    using keyed by simp
  have "mset (map CookieListForDomain.domain ?groups) = mset (map fst (own obj))"
    by (simp only: d1 d2 d3)
  with dist have distinct: "distinct (map CookieListForDomain.domain ?groups)"
    by (metis mset_eq_imp_distinct_iff)
  have "set ?sorted = snd ` set (own obj)"
    using perm by (metis mset_eq_setD set_map)
  with keyed have "\<forall>g \<in> set ?sorted. \<forall>m \<in> set (cookies g).
      Cookie.domain (cookie m) = CookieListForDomain.domain g"
    by auto
  then have member: "\<forall>g \<in> set ?groups. \<forall>m \<in> set (cookies g).
      Cookie.domain (cookie m) = CookieListForDomain.domain g"
    by (simp add: sortCookies_def set_arraySort)
  from run count distinct member show ?thesis by blast
qed

lemma getCookieList_plain_domains_example:
  "\<exists>groups.
     getCookieList imp
       [\<lparr>Cookie.domain = str ''b.org'', name = str ''x''\<rparr>,
        \<lparr>Cookie.domain = str ''a.org'', name = str ''y''\<rparr>,
        \<lparr>Cookie.domain = str ''b.org'', name = str ''z''\<rparr>] = Inr groups \<and>
     mset (concat (map cookies groups))
       = mset (map (mappedOf imp)
           [\<lparr>Cookie.domain = str ''b.org'', name = str ''x''\<rparr>,
            \<lparr>Cookie.domain = str ''a.org'', name = str ''y''\<rparr>,
            \<lparr>Cookie.domain = str ''b.org'', name = str ''z''\<rparr>]) \<and>
     distinct (map CookieListForDomain.domain groups) \<and>
     (\<forall>g \<in> set groups. \<forall>m \<in> set (cookies g).
        Cookie.domain (cookie m) = CookieListForDomain.domain g)"
  by (rule getCookieList_plain_domains) (simp add: startsWith_def objectPrototypeNames_def str_def)

end
